theory Spec2Isabelle
  imports Main "HOL-Library.Sublist"
begin

section \<open>Data model\<close>

text \<open>
  A Python \<open>str\<close> is a sequence of Unicode code points and \<open>len\<close> counts code points, so
  a string is a list of code points here. \<open>ascii\<close> embeds an ASCII literal; the other
  characters of the source's literals are written by their code point.
\<close>

type_synonym pystr = "nat list"

definition ascii :: "string \<Rightarrow> pystr" where
  "ascii cs = map of_char cs"

text \<open>\<open>str(n)\<close> of a non-negative integer: its decimal digits.\<close>

fun decimal :: "nat \<Rightarrow> pystr" where
  "decimal n = (if n < 10 then [48 + n] else decimal (n div 10) @ [48 + n mod 10])"

declare decimal.simps [simp del]

text \<open>
  The instances of Python's \<open>Exception\<close> that reach the code: \<open>telegram.error.TelegramError\<close>
  (with its subclasses), any other \<open>Exception\<close>, and \<open>tenacity.RetryError\<close>, which holds the
  exception of the last attempt. The first two carry the message they were built with.
  What \<open>str(e)\<close> prints is each class's own business (that of \<open>RetryError\<close> prints its
  future's address), so the functions that format an exception take \<open>str\<close> as the
  parameter \<open>str_of\<close>. A \<open>BaseException\<close> outside \<open>Exception\<close> (the cancellation of the
  task, the exit of the interpreter) is no failure of an operation and is not modelled.
\<close>

datatype exn =
    TelegramError pystr
  | OtherException pystr
  | RetryError exn

datatype log_level = INFO | WARNING | ERROR

datatype parse_mode = MARKDOWN

text \<open>
  What a run does to the outside, in order: it awaits the wrapped \<open>method\<close> (\<open>Called\<close>),
  awaits \<open>bot.send_message(chat_id, text, parse_mode)\<close> (\<open>Sent\<close>), calls
  \<open>logging.info/warning/error(msg, exc_info)\<close> (\<open>Logged\<close>), or sleeps between two attempts
  (\<open>Slept\<close>, in seconds).
\<close>

datatype event =
    Called
  | Sent pystr pystr parse_mode
  | Logged log_level pystr bool
  | Slept int

text \<open>
  An awaited operation acts on the world \<open>'w\<close> outside the program and either raises or
  returns. A coroutine of this module also emits events.
\<close>

type_synonym ('w, 'a) operation = "'w \<Rightarrow> (exn + 'a) \<times> 'w"

type_synonym ('w, 'a) coroutine = "'w \<Rightarrow> (exn + 'a) \<times> event list \<times> 'w"

text \<open>The value a Python function returns: \<open>None\<close>, or the transport's message object.\<close>

datatype 'm pyval = PyNone | PyMessage 'm

text \<open>
  \<open>config.TELEGRAM_BOT_TOKEN\<close> and \<open>config.TELEGRAM_CHAT_ID\<close>: \<open>None\<close> or a string. The
  module \<open>config\<close> is imported, so the two values are parameters.
\<close>

record config =
  TELEGRAM_BOT_TOKEN :: "pystr option"
  TELEGRAM_CHAT_ID :: "pystr option"

text \<open>Python's \<open>not v\<close> for \<open>None\<close> or a string.\<close>

fun falsy :: "pystr option \<Rightarrow> bool" where
  "falsy None = True"
| "falsy (Some v) = (v = [])"

section \<open>The retry decorator\<close>

text \<open>
  \<open>tenacity.stop_after_attempt(n)\<close>: stop when the number of the attempt just made has
  reached \<open>n\<close>.
\<close>

definition stop_after_attempt :: "nat \<Rightarrow> nat \<Rightarrow> bool" where
  "stop_after_attempt max_attempt_number attempt_number =
     (attempt_number \<ge> max_attempt_number)"

text \<open>
  \<open>tenacity.wait_exponential(multiplier, min, max)\<close> with its default \<open>exp_base = 2\<close>:
  \<open>max(max(0, min), min(multiplier * exp_base ** (attempt_number - 1), max))\<close>. The
  source passes integers, so the arithmetic is Python's integer arithmetic.
\<close>

definition wait_exponential :: "int \<Rightarrow> int \<Rightarrow> int \<Rightarrow> nat \<Rightarrow> int" where
  "wait_exponential multiplier mn mx attempt_number =
     max (max 0 mn) (min (multiplier * 2 ^ (attempt_number - 1)) mx)"

text \<open>
  \<open>@retry(stop=stop_after_attempt(n), wait=w)\<close> around an \<open>async def\<close>: tenacity's
  \<open>AsyncRetrying.__call__\<close>. The defaults in force are \<open>retry=retry_if_exception_type()\<close>
  (every \<open>Exception\<close> is retried) and \<open>reraise=False\<close>: when the stop condition holds
  after a failed attempt, the loop raises \<open>RetryError(last_attempt)\<close>. Otherwise it
  sleeps \<open>w(attempt_number)\<close> seconds and runs the next attempt. A result is returned
  as it is.
\<close>

function retrying ::
  "nat \<Rightarrow> (nat \<Rightarrow> int) \<Rightarrow> ('w, 'a) coroutine \<Rightarrow> nat \<Rightarrow> ('w, 'a) coroutine" where
  "retrying max_attempt_number wait fn attempt_number w =
     (case fn w of
        (Inr result, evs, w') \<Rightarrow> (Inr result, evs, w')
      | (Inl e, evs, w') \<Rightarrow>
          if stop_after_attempt max_attempt_number attempt_number
          then (Inl (RetryError e), evs, w')
          else (case retrying max_attempt_number wait fn (Suc attempt_number) w' of
                  (r, evs', w'') \<Rightarrow> (r, evs @ Slept (wait attempt_number) # evs', w'')))"
  by pat_completeness auto
termination
  by (relation "measure (\<lambda>(n, _, _, a, _). n - a)")
     (auto simp: stop_after_attempt_def)

declare retrying.simps [simp del]

section \<open>safe_fetch\<close>

text \<open>
  The body of \<open>safe_fetch\<close>: await \<open>method(*args, **kwargs)\<close> (the arguments are part of
  the operation); on an exception log it at error level and raise it again.
\<close>

definition safe_fetch_attempt ::
  "(exn \<Rightarrow> pystr) \<Rightarrow> ('w, 'a) operation \<Rightarrow> ('w, 'a) coroutine" where
  "safe_fetch_attempt str_of method w =
     (case method w of
        (Inr result, w') \<Rightarrow> (Inr result, [Called], w')
      | (Inl e, w') \<Rightarrow>
          (Inl e,
           [Called,
            Logged ERROR ([0x8BF7, 0x6C42, 0x5931, 0x8D25] @ ascii '': '' @ str_of e) False],
           w'))"

definition safe_fetch ::
  "(exn \<Rightarrow> pystr) \<Rightarrow> ('w, 'a) operation \<Rightarrow> ('w, 'a) coroutine" where
  "safe_fetch str_of method =
     retrying 3 (wait_exponential 1 2 10) (safe_fetch_attempt str_of method) 1"

section \<open>send_telegram_message\<close>

text \<open>The default of the parameter \<open>title\<close>.\<close>

definition default_title :: pystr where
  "default_title = [0x4EA4, 0x6613, 0x901A, 0x77E5]"

text \<open>
  The body of \<open>send_telegram_message\<close>, one attempt. \<open>send_message\<close> is the transport,
  \<open>telegram.Bot(token).send_message\<close>; its message object is dropped and the function
  returns \<open>None\<close> on both paths that return. \<open>title\<close> is \<open>None\<close> when the caller omits it.
\<close>

definition send_telegram_message_attempt ::
  "(exn \<Rightarrow> pystr) \<Rightarrow> config \<Rightarrow> (pystr \<Rightarrow> pystr \<Rightarrow> parse_mode \<Rightarrow> ('w, 'm) operation) \<Rightarrow>
   pystr \<Rightarrow> pystr option \<Rightarrow> ('w, 'm pyval) coroutine" where
  "send_telegram_message_attempt str_of cfg send_message content title_arg w =
     (let title = (case title_arg of None \<Rightarrow> default_title | Some t \<Rightarrow> t) in
      if falsy (TELEGRAM_BOT_TOKEN cfg) \<or> falsy (TELEGRAM_CHAT_ID cfg) then
        (Inr PyNone,
         [Logged ERROR
            ([0x672A, 0x914D, 0x7F6E] @ ascii ''TELEGRAM_BOT_TOKEN'' @ [0x6216] @
             ascii ''TELEGRAM_CHAT_ID'' @ [0xFF0C, 0x65E0, 0x6CD5, 0x53D1, 0x9001] @
             ascii ''Telegram'' @ [0x901A, 0x77E5]) False],
         w)
      else
        let full_message = ascii ''*'' @ title @ ascii ''*'' @ [10, 10] @ content;
            announce =
              Logged INFO
                ([0x6B63, 0x5728, 0x53D1, 0x9001] @ ascii ''Telegram'' @ [0x901A, 0x77E5] @
                 ascii '': '' @ title) False;
            max_length = 4000;
            too_long = (length full_message > max_length);
            warn =
              (if too_long then
                 [Logged WARNING
                    ([0x6D88, 0x606F, 0x8FC7, 0x957F] @ ascii '' ('' @
                     decimal (length full_message) @ ascii '' chars)'' @
                     [0xFF0C, 0x5C06, 0x88AB, 0x622A, 0x65AD] @ ascii ''.'') False]
               else []);
            text = (if too_long then take max_length full_message @ ascii ''...''
                    else full_message);
            chat_id = (case TELEGRAM_CHAT_ID cfg of Some c \<Rightarrow> c | None \<Rightarrow> [])
        in case send_message chat_id text MARKDOWN w of
             (Inr _, w') \<Rightarrow>
               (Inr PyNone,
                [announce] @ warn @
                [Sent chat_id text MARKDOWN,
                 Logged INFO
                   (ascii ''Telegram'' @ [0x6D88, 0x606F, 0x53D1, 0x9001, 0x6210, 0x529F])
                   False],
                w')
           | (Inl e, w') \<Rightarrow>
               (Inl e,
                [announce] @ warn @
                [Sent chat_id text MARKDOWN,
                 (case e of
                    TelegramError _ \<Rightarrow>
                      Logged ERROR
                        (ascii ''Telegram'' @ [0x6D88, 0x606F, 0x53D1, 0x9001, 0x5931, 0x8D25] @
                         ascii '': '' @ str_of e) False
                  | _ \<Rightarrow>
                      Logged ERROR
                        ([0x53D1, 0x9001] @ ascii ''Telegram'' @
                         [0x6D88, 0x606F, 0x65F6, 0x53D1, 0x751F, 0x672A, 0x77E5, 0x9519, 0x8BEF] @
                         ascii '': '' @ str_of e) True)],
                w'))"

definition send_telegram_message ::
  "(exn \<Rightarrow> pystr) \<Rightarrow> config \<Rightarrow> (pystr \<Rightarrow> pystr \<Rightarrow> parse_mode \<Rightarrow> ('w, 'm) operation) \<Rightarrow>
   pystr \<Rightarrow> pystr option \<Rightarrow> ('w, 'm pyval) coroutine" where
  "send_telegram_message str_of cfg send_message content title_arg =
     retrying 3 (wait_exponential 1 2 10)
       (send_telegram_message_attempt str_of cfg send_message content title_arg) 1"


section \<open>Observing a run\<close>

text \<open>The seconds slept, the texts handed to the transport, and the log calls of a level.\<close>

fun sleeps :: "event list \<Rightarrow> int list" where
  "sleeps [] = []"
| "sleeps (Slept d # evs) = d # sleeps evs"
| "sleeps (_ # evs) = sleeps evs"

fun sent_texts :: "event list \<Rightarrow> pystr list" where
  "sent_texts [] = []"
| "sent_texts (Sent c t m # evs) = t # sent_texts evs"
| "sent_texts (_ # evs) = sent_texts evs"

fun logged_at :: "log_level \<Rightarrow> event \<Rightarrow> bool" where
  "logged_at l (Logged l' msg x) = (l = l')"
| "logged_at l _ = False"

fun is_sent :: "event \<Rightarrow> bool" where
  "is_sent (Sent c t m) = True"
| "is_sent _ = False"

text \<open>The events that follow the last call of the transport.\<close>

definition after_send :: "event list \<Rightarrow> event list" where
  "after_send evs = rev (takeWhile (\<lambda>e. \<not> is_sent e) (rev evs))"

text \<open>An info-level log call whose message contains the text \<open>t\<close>.\<close>

fun info_naming :: "pystr \<Rightarrow> event \<Rightarrow> bool" where
  "info_naming t (Logged l msg x) = (l = INFO \<and> sublist t msg)"
| "info_naming t _ = False"

text \<open>
  The outcome of the \<open>k\<close>-th invocation of an operation (\<open>k\<close> from 1) when the earlier
  ones started in the world \<open>w\<close>, and what it is for an operation to succeed on attempt
  \<open>k\<close>: the \<open>k - 1\<close> invocations before raise and the \<open>k\<close>-th returns.
\<close>

fun world_after :: "('w, 'a) operation \<Rightarrow> nat \<Rightarrow> 'w \<Rightarrow> 'w" where
  "world_after op 0 w = w"
| "world_after op (Suc n) w = world_after op n (snd (op w))"

definition invocation :: "('w, 'a) operation \<Rightarrow> 'w \<Rightarrow> nat \<Rightarrow> exn + 'a" where
  "invocation op w k = fst (op (world_after op (k - 1) w))"

definition succeeds_on_attempt :: "('w, 'a) operation \<Rightarrow> 'w \<Rightarrow> nat \<Rightarrow> bool" where
  "succeeds_on_attempt op w k =
     (1 \<le> k \<and> (\<forall>i \<in> {1..<k}. isl (invocation op w i)) \<and> \<not> isl (invocation op w k))"

definition fails_three_times :: "('w, 'a) operation \<Rightarrow> 'w \<Rightarrow> bool" where
  "fails_three_times op w = (\<forall>i \<in> {1..3}. isl (invocation op w i))"

section \<open>The specification's words\<close>

text \<open>
  The delay the specification gives for the wait after the failed attempt \<open>i\<close>:
  \<open>min(max_delay, base_delay * multiplier^(i-1))\<close>.
\<close>

definition spec_delay :: "int \<Rightarrow> int \<Rightarrow> int \<Rightarrow> nat \<Rightarrow> int" where
  "spec_delay max_delay base_delay multiplier i =
     min max_delay (base_delay * multiplier ^ (i - 1))"

text \<open>
  The rendering of the specification: the title between asterisks, a blank line, the
  body; and its size policy.
\<close>

definition rendered :: "pystr \<Rightarrow> pystr \<Rightarrow> pystr" where
  "rendered title body = ascii ''*'' @ title @ ascii ''*'' @ [10, 10] @ body"

definition size_policy :: "pystr \<Rightarrow> pystr" where
  "size_policy r = (if length r \<le> 4000 then r else take 4000 r @ ascii ''...'')"

section \<open>What an attempt hands to the transport\<close>

text \<open>
  The title in force, the test of the configuration, the chat id, and the call of the
  transport written with the specification's rendering and size policy. The lemmas
  \<open>attempt_returned\<close> and \<open>attempt_raised\<close> below show that this is the call the body
  of \<open>send_telegram_message\<close> makes.
\<close>

definition title_or_default :: "pystr option \<Rightarrow> pystr" where
  "title_or_default title_arg =
     (case title_arg of None \<Rightarrow> default_title | Some t \<Rightarrow> t)"

definition is_configured :: "config \<Rightarrow> bool" where
  "is_configured cfg = (\<not> (falsy (TELEGRAM_BOT_TOKEN cfg) \<or> falsy (TELEGRAM_CHAT_ID cfg)))"

definition chat_of :: "config \<Rightarrow> pystr" where
  "chat_of cfg = (case TELEGRAM_CHAT_ID cfg of Some c \<Rightarrow> c | None \<Rightarrow> [])"

definition delivery ::
  "config \<Rightarrow> (pystr \<Rightarrow> pystr \<Rightarrow> parse_mode \<Rightarrow> ('w, 'm) operation) \<Rightarrow> pystr \<Rightarrow> pystr option \<Rightarrow>
   ('w, 'm) operation" where
  "delivery cfg send_message content title_arg =
     send_message (chat_of cfg)
       (size_policy (rendered (title_or_default title_arg) content)) MARKDOWN"

section \<open>Names for the log calls\<close>

text \<open>
  The log calls of the two functions, named for the lemmas on whole runs: the failed
  request of \<open>safe_fetch\<close>, and for \<open>send_telegram_message\<close> the missing configuration,
  the announcement before the send, the warning of the size policy, the confirmation
  after the send, and the failed send.
\<close>

definition request_failed :: "(exn \<Rightarrow> pystr) \<Rightarrow> exn \<Rightarrow> event" where
  "request_failed str_of e =
     Logged ERROR ([0x8BF7, 0x6C42, 0x5931, 0x8D25] @ ascii '': '' @ str_of e) False"

definition not_configured :: event where
  "not_configured =
     Logged ERROR
       ([0x672A, 0x914D, 0x7F6E] @ ascii ''TELEGRAM_BOT_TOKEN'' @ [0x6216] @
        ascii ''TELEGRAM_CHAT_ID'' @ [0xFF0C, 0x65E0, 0x6CD5, 0x53D1, 0x9001] @
        ascii ''Telegram'' @ [0x901A, 0x77E5]) False"

definition sending :: "pystr \<Rightarrow> event" where
  "sending title =
     Logged INFO
       ([0x6B63, 0x5728, 0x53D1, 0x9001] @ ascii ''Telegram'' @ [0x901A, 0x77E5] @
        ascii '': '' @ title) False"

definition too_long :: "nat \<Rightarrow> event" where
  "too_long n =
     Logged WARNING
       ([0x6D88, 0x606F, 0x8FC7, 0x957F] @ ascii '' ('' @ decimal n @ ascii '' chars)'' @
        [0xFF0C, 0x5C06, 0x88AB, 0x622A, 0x65AD] @ ascii ''.'') False"

definition sent_ok :: event where
  "sent_ok =
     Logged INFO (ascii ''Telegram'' @ [0x6D88, 0x606F, 0x53D1, 0x9001, 0x6210, 0x529F]) False"

definition send_failed :: "(exn \<Rightarrow> pystr) \<Rightarrow> exn \<Rightarrow> event" where
  "send_failed str_of e =
     (case e of
        TelegramError d \<Rightarrow>
          Logged ERROR
            (ascii ''Telegram'' @ [0x6D88, 0x606F, 0x53D1, 0x9001, 0x5931, 0x8D25] @
             ascii '': '' @ str_of e) False
      | _ \<Rightarrow>
          Logged ERROR
            ([0x53D1, 0x9001] @ ascii ''Telegram'' @
             [0x6D88, 0x606F, 0x65F6, 0x53D1, 0x751F, 0x672A, 0x77E5, 0x9519, 0x8BEF] @
             ascii '': '' @ str_of e) True)"

text \<open>The events of one attempt that reaches the transport, up to its last log call.\<close>

definition attempt_events :: "config \<Rightarrow> pystr \<Rightarrow> pystr option \<Rightarrow> event list" where
  "attempt_events cfg content title_arg =
     (let title = title_or_default title_arg; r = rendered title content in
      sending title # (if length r > 4000 then [too_long (length r)] else []) @
      [Sent (chat_of cfg) (size_policy r) MARKDOWN])"

section \<open>Operations for the examples\<close>

text \<open>
  The world of the examples counts the invocations made. \<open>flaky n e v\<close> raises \<open>e\<close> on
  its first \<open>n\<close> invocations and returns \<open>v\<close> from then on; \<open>always_raises e\<close> never
  returns.
\<close>

definition flaky :: "nat \<Rightarrow> exn \<Rightarrow> 'a \<Rightarrow> (nat, 'a) operation" where
  "flaky n e v w = (if w < n then Inl e else Inr v, Suc w)"

definition always_raises :: "exn \<Rightarrow> (nat, 'a) operation" where
  "always_raises e w = (Inl e, Suc w)"

definition flaky_transport ::
  "nat \<Rightarrow> exn \<Rightarrow> pystr \<Rightarrow> pystr \<Rightarrow> parse_mode \<Rightarrow> (nat, unit) operation" where
  "flaky_transport n e chat text mode = flaky n e ()"

definition dead_transport :: "exn \<Rightarrow> pystr \<Rightarrow> pystr \<Rightarrow> parse_mode \<Rightarrow> (nat, unit) operation" where
  "dead_transport e chat text mode = always_raises e"

fun message_of :: "exn \<Rightarrow> pystr" where
  "message_of (TelegramError d) = d"
| "message_of (OtherException d) = d"
| "message_of (RetryError e) = ascii ''RetryError''"

definition configured :: config where
  "configured = \<lparr>TELEGRAM_BOT_TOKEN = Some (ascii ''token''), TELEGRAM_CHAT_ID = Some (ascii ''42'')\<rparr>"

definition unconfigured :: config where
  "unconfigured = \<lparr>TELEGRAM_BOT_TOKEN = None, TELEGRAM_CHAT_ID = Some (ascii ''42'')\<rparr>"

text \<open>A body of 4500 characters.\<close>

definition long_body :: pystr where
  "long_body = replicate 4500 120"

definition timed_out :: exn where
  "timed_out = TelegramError (ascii ''Timed out'')"

definition boom :: exn where
  "boom = OtherException (ascii ''boom'')"

section \<open>The retry loop, unfolded\<close>

lemma retrying_last:
  "max_attempt_number \<le> a \<Longrightarrow>
   retrying max_attempt_number wait fn a w =
     (case fn w of
        (Inr r, evs, w') \<Rightarrow> (Inr r, evs, w')
      | (Inl e, evs, w') \<Rightarrow> (Inl (RetryError e), evs, w'))"
  by (subst retrying.simps) (simp add: stop_after_attempt_def split: prod.splits sum.splits)

lemma retrying_more:
  "a < max_attempt_number \<Longrightarrow> b = Suc a \<Longrightarrow>
   retrying max_attempt_number wait fn a w =
     (case fn w of
        (Inr r, evs, w') \<Rightarrow> (Inr r, evs, w')
      | (Inl e, evs, w') \<Rightarrow>
          (case retrying max_attempt_number wait fn b w' of
             (r, evs', w'') \<Rightarrow> (r, evs @ Slept (wait a) # evs', w'')))"
  by (subst retrying.simps) (simp add: stop_after_attempt_def split: prod.splits sum.splits)

lemma retrying_3:
  "retrying 3 wait fn 1 w =
     (case fn w of
        (Inr r, evs1, w1) \<Rightarrow> (Inr r, evs1, w1)
      | (Inl e1, evs1, w1) \<Rightarrow>
          (case fn w1 of
             (Inr r, evs2, w2) \<Rightarrow> (Inr r, evs1 @ Slept (wait 1) # evs2, w2)
           | (Inl e2, evs2, w2) \<Rightarrow>
               (case fn w2 of
                  (Inr r, evs3, w3) \<Rightarrow>
                    (Inr r, evs1 @ Slept (wait 1) # evs2 @ Slept (wait 2) # evs3, w3)
                | (Inl e3, evs3, w3) \<Rightarrow>
                    (Inl (RetryError e3),
                     evs1 @ Slept (wait 1) # evs2 @ Slept (wait 2) # evs3, w3))))"
proof -
  have 3: "retrying 3 wait fn 3 v =
     (case fn v of
        (Inr r, evs, w') \<Rightarrow> (Inr r, evs, w')
      | (Inl e, evs, w') \<Rightarrow> (Inl (RetryError e), evs, w'))" for v
    by (rule retrying_last) simp
  have 2: "retrying 3 wait fn 2 v =
     (case fn v of
        (Inr r, evs, w') \<Rightarrow> (Inr r, evs, w')
      | (Inl e, evs, w') \<Rightarrow>
          (case retrying 3 wait fn 3 w' of
             (r, evs', w'') \<Rightarrow> (r, evs @ Slept (wait 2) # evs', w'')))" for v
    by (rule retrying_more) simp_all
  have 1: "retrying 3 wait fn 1 v =
     (case fn v of
        (Inr r, evs, w') \<Rightarrow> (Inr r, evs, w')
      | (Inl e, evs, w') \<Rightarrow>
          (case retrying 3 wait fn 2 w' of
             (r, evs', w'') \<Rightarrow> (r, evs @ Slept (wait 1) # evs', w'')))" for v
    by (rule retrying_more) simp_all
  show ?thesis
    unfolding 1 2 3 by (simp split: prod.splits sum.splits)
qed

lemma wait_standard_1: "wait_exponential 1 2 10 (Suc 0) = 2"
  by (simp add: wait_exponential_def)

lemma wait_standard_2: "wait_exponential 1 2 10 2 = 2"
  by (simp add: wait_exponential_def)

lemma wait_standard_le: "wait_exponential 1 2 10 n \<le> 10"
  by (simp add: wait_exponential_def)

lemma raised_or_returned:
  obtains (raised) e w' where "op w = (Inl e, w')"
  | (returned) r w' where "op w = (Inr r, w')"
  by (cases "op w"; cases "fst (op w)") auto

lemma invocation_1: "invocation op w (Suc 0) = fst (op w)"
  by (simp add: invocation_def)

lemma invocation_2: "invocation op w 2 = fst (op (snd (op w)))"
  by (simp add: invocation_def numeral_2_eq_2)

lemma invocation_3: "invocation op w 3 = fst (op (snd (op (snd (op w)))))"
  by (simp add: invocation_def numeral_3_eq_3)

text \<open>
  The three attempts of an operation end in one of four ways: it returns at the first,
  the second or the third invocation, or it raises three times.
\<close>

lemma three_attempts:
  obtains
    (first) r w1 where "op w = (Inr r, w1)" "succeeds_on_attempt op w 1"
      "invocation op w 1 = Inr r"
  | (second) e1 w1 r w2 where "op w = (Inl e1, w1)" "op w1 = (Inr r, w2)"
      "succeeds_on_attempt op w 2" "invocation op w 2 = Inr r"
  | (third) e1 w1 e2 w2 r w3 where "op w = (Inl e1, w1)" "op w1 = (Inl e2, w2)"
      "op w2 = (Inr r, w3)" "succeeds_on_attempt op w 3" "invocation op w 3 = Inr r"
  | (none) e1 w1 e2 w2 e3 w3 where "op w = (Inl e1, w1)" "op w1 = (Inl e2, w2)"
      "op w2 = (Inl e3, w3)" "fails_three_times op w" "invocation op w 3 = Inl e3"
proof (cases rule: raised_or_returned [of op w])
  case (returned r w1)
  then show ?thesis
    by (intro first [of r w1]) (simp_all add: succeeds_on_attempt_def invocation_1)
next
  case a: (raised e1 w1)
  have low: "{Suc 0..<2} = {Suc 0}" "{Suc 0..<3} = {Suc 0, 2}" "{Suc 0..3} = {Suc 0, 2, 3}"
    by auto
  show ?thesis
  proof (cases rule: raised_or_returned [of op w1])
    case (returned r w2)
    with a show ?thesis
      by (intro second [of e1 w1 r w2])
        (simp_all add: succeeds_on_attempt_def low invocation_1 invocation_2)
  next
    case b: (raised e2 w2)
    show ?thesis
    proof (cases rule: raised_or_returned [of op w2])
      case (returned r w3)
      with a b show ?thesis
        by (intro third [of e1 w1 e2 w2 r w3])
          (simp_all add: succeeds_on_attempt_def low invocation_1 invocation_2 invocation_3)
    next
      case (raised e3 w3)
      with a b show ?thesis
        by (intro none [of e1 w1 e2 w2 e3 w3])
          (simp_all add: fails_three_times_def low invocation_1 invocation_2 invocation_3)
    qed
  qed
qed

text \<open>The attempt on which an operation succeeds is unique, and excludes three failures.\<close>

lemma succeeds_on_attempt_unique:
  assumes "succeeds_on_attempt op w j" and "succeeds_on_attempt op w k"
  shows "j = k"
proof (rule ccontr)
  assume "j \<noteq> k"
  then consider "j < k" | "k < j"
    by arith
  then show False
  proof cases
    case 1
    with assms show False
      by (auto simp: succeeds_on_attempt_def)
  next
    case 2
    with assms show False
      by (auto simp: succeeds_on_attempt_def)
  qed
qed

lemma succeeds_not_fails:
  assumes "succeeds_on_attempt op w k" and "k \<le> 3" and "fails_three_times op w"
  shows False
  using assms by (auto simp: succeeds_on_attempt_def fails_three_times_def)

section \<open>The runs of safe_fetch\<close>

lemma safe_fetch_first:
  assumes "method w = (Inr r, w1)"
  shows "safe_fetch str_of method w = (Inr r, [Called], w1)"
  unfolding safe_fetch_def retrying_3
  by (simp add: safe_fetch_attempt_def assms)

lemma safe_fetch_second:
  assumes "method w = (Inl e1, w1)" and "method w1 = (Inr r, w2)"
  shows "safe_fetch str_of method w =
           (Inr r, [Called, request_failed str_of e1, Slept 2, Called], w2)"
  unfolding safe_fetch_def retrying_3
  by (simp add: safe_fetch_attempt_def assms wait_standard_1 request_failed_def)

lemma safe_fetch_third:
  assumes "method w = (Inl e1, w1)" and "method w1 = (Inl e2, w2)"
    and "method w2 = (Inr r, w3)"
  shows "safe_fetch str_of method w =
           (Inr r,
            [Called, request_failed str_of e1, Slept 2,
             Called, request_failed str_of e2, Slept 2, Called], w3)"
  unfolding safe_fetch_def retrying_3
  by (simp add: safe_fetch_attempt_def assms wait_standard_1 wait_standard_2
      request_failed_def)

lemma safe_fetch_none:
  assumes "method w = (Inl e1, w1)" and "method w1 = (Inl e2, w2)"
    and "method w2 = (Inl e3, w3)"
  shows "safe_fetch str_of method w =
           (Inl (RetryError e3),
            [Called, request_failed str_of e1, Slept 2,
             Called, request_failed str_of e2, Slept 2,
             Called, request_failed str_of e3], w3)"
  unfolding safe_fetch_def retrying_3
  by (simp add: safe_fetch_attempt_def assms wait_standard_1 wait_standard_2
      request_failed_def)

lemma sleeps_request_failed [simp]: "sleeps (request_failed str_of e # evs) = sleeps evs"
  by (simp add: request_failed_def)

lemma request_failed_not_Called [simp]: "request_failed str_of e \<noteq> Called"
  by (simp add: request_failed_def)


section \<open>The runs of send_telegram_message\<close>

lemma attempt_unconfigured:
  assumes "\<not> is_configured cfg"
  shows "send_telegram_message_attempt str_of cfg send_message content title_arg w =
           (Inr PyNone, [not_configured], w)"
  using assms
  by (simp add: send_telegram_message_attempt_def is_configured_def not_configured_def)

lemma attempt_returned:
  assumes "is_configured cfg"
    and "delivery cfg send_message content title_arg w = (Inr m, w')"
  shows "send_telegram_message_attempt str_of cfg send_message content title_arg w =
           (Inr PyNone, attempt_events cfg content title_arg @ [sent_ok], w')"
proof (cases "4000 < length (rendered (title_or_default title_arg) content)")
  case True
  with assms show ?thesis
    by (simp add: send_telegram_message_attempt_def is_configured_def delivery_def
        attempt_events_def size_policy_def rendered_def title_or_default_def
        chat_of_def sending_def too_long_def sent_ok_def Let_def)
next
  case False
  with assms show ?thesis
    by (simp add: send_telegram_message_attempt_def is_configured_def delivery_def
        attempt_events_def size_policy_def rendered_def title_or_default_def
        chat_of_def sending_def too_long_def sent_ok_def Let_def)
qed

lemma attempt_raised:
  assumes "is_configured cfg"
    and "delivery cfg send_message content title_arg w = (Inl e, w')"
  shows "send_telegram_message_attempt str_of cfg send_message content title_arg w =
           (Inl e, attempt_events cfg content title_arg @ [send_failed str_of e], w')"
proof (cases "4000 < length (rendered (title_or_default title_arg) content)")
  case True
  with assms show ?thesis
    by (simp add: send_telegram_message_attempt_def is_configured_def delivery_def
        attempt_events_def size_policy_def rendered_def title_or_default_def
        chat_of_def sending_def too_long_def send_failed_def Let_def)
next
  case False
  with assms show ?thesis
    by (simp add: send_telegram_message_attempt_def is_configured_def delivery_def
        attempt_events_def size_policy_def rendered_def title_or_default_def
        chat_of_def sending_def too_long_def send_failed_def Let_def)
qed

lemma telegram_unconfigured:
  assumes "\<not> is_configured cfg"
  shows "send_telegram_message str_of cfg send_message content title_arg w =
           (Inr PyNone, [not_configured], w)"
  unfolding send_telegram_message_def retrying_3
  by (simp add: attempt_unconfigured [OF assms])

lemma telegram_first:
  assumes "is_configured cfg"
    and "delivery cfg send_message content title_arg w = (Inr m, w1)"
  shows "send_telegram_message str_of cfg send_message content title_arg w =
           (Inr PyNone, attempt_events cfg content title_arg @ [sent_ok], w1)"
  unfolding send_telegram_message_def retrying_3
  by (simp add: attempt_returned [OF assms])

lemma telegram_second:
  assumes "is_configured cfg"
    and "delivery cfg send_message content title_arg w = (Inl e1, w1)"
    and "delivery cfg send_message content title_arg w1 = (Inr m, w2)"
  shows "send_telegram_message str_of cfg send_message content title_arg w =
           (Inr PyNone,
            attempt_events cfg content title_arg @ send_failed str_of e1 # Slept 2 #
            attempt_events cfg content title_arg @ [sent_ok], w2)"
  unfolding send_telegram_message_def retrying_3
  by (simp add: attempt_raised [OF assms(1,2)] attempt_returned [OF assms(1,3)]
      wait_standard_1)

lemma telegram_third:
  assumes "is_configured cfg"
    and "delivery cfg send_message content title_arg w = (Inl e1, w1)"
    and "delivery cfg send_message content title_arg w1 = (Inl e2, w2)"
    and "delivery cfg send_message content title_arg w2 = (Inr m, w3)"
  shows "send_telegram_message str_of cfg send_message content title_arg w =
           (Inr PyNone,
            attempt_events cfg content title_arg @ send_failed str_of e1 # Slept 2 #
            attempt_events cfg content title_arg @ send_failed str_of e2 # Slept 2 #
            attempt_events cfg content title_arg @ [sent_ok], w3)"
  unfolding send_telegram_message_def retrying_3
  by (simp add: attempt_raised [OF assms(1,2)] attempt_raised [OF assms(1,3)]
      attempt_returned [OF assms(1,4)] wait_standard_1 wait_standard_2)

lemma telegram_none:
  assumes "is_configured cfg"
    and "delivery cfg send_message content title_arg w = (Inl e1, w1)"
    and "delivery cfg send_message content title_arg w1 = (Inl e2, w2)"
    and "delivery cfg send_message content title_arg w2 = (Inl e3, w3)"
  shows "send_telegram_message str_of cfg send_message content title_arg w =
           (Inl (RetryError e3),
            attempt_events cfg content title_arg @ send_failed str_of e1 # Slept 2 #
            attempt_events cfg content title_arg @ send_failed str_of e2 # Slept 2 #
            attempt_events cfg content title_arg @ [send_failed str_of e3], w3)"
  unfolding send_telegram_message_def retrying_3
  by (simp add: attempt_raised [OF assms(1,2)] attempt_raised [OF assms(1,3)]
      attempt_raised [OF assms(1,4)] wait_standard_1 wait_standard_2)

section \<open>Observations on the events of a run\<close>

lemma sleeps_append [simp]: "sleeps (xs @ ys) = sleeps xs @ sleeps ys"
  by (induction xs rule: sleeps.induct) simp_all

lemma sent_texts_append [simp]: "sent_texts (xs @ ys) = sent_texts xs @ sent_texts ys"
  by (induction xs rule: sent_texts.induct) simp_all

lemma send_failed_obs [simp]:
  "sleeps (send_failed str_of e # evs) = sleeps evs"
  "sent_texts (send_failed str_of e # evs) = sent_texts evs"
  "logged_at ERROR (send_failed str_of e)"
  "\<not> is_sent (send_failed str_of e)"
  by (cases e; simp add: send_failed_def)+

lemma sent_ok_obs [simp]:
  "sleeps (sent_ok # evs) = sleeps evs"
  "sent_texts (sent_ok # evs) = sent_texts evs"
  "\<not> logged_at ERROR sent_ok"
  "\<not> is_sent sent_ok"
  by (simp_all add: sent_ok_def)

lemma attempt_events_obs [simp]:
  "sleeps (attempt_events cfg content title_arg) = []"
  "sent_texts (attempt_events cfg content title_arg) =
     [size_policy (rendered (title_or_default title_arg) content)]"
  "filter (logged_at ERROR) (attempt_events cfg content title_arg) = []"
  by (simp_all add: attempt_events_def Let_def sending_def too_long_def)

lemma after_send_attempt [simp]:
  assumes "\<not> is_sent e"
  shows "after_send (xs @ attempt_events cfg content title_arg @ [e]) = [e]"
  using assms by (simp add: after_send_def attempt_events_def Let_def)

lemma after_send_attempt' [simp]:
  assumes "\<not> is_sent e"
  shows "after_send (attempt_events cfg content title_arg @ [e]) = [e]"
  using after_send_attempt [OF assms, of "[]"] by simp

lemma sending_in_attempt [simp]:
  "sending (title_or_default title_arg) \<in> set (attempt_events cfg content title_arg)"
  by (simp add: attempt_events_def Let_def)


section \<open>The four ways a run can go\<close>

lemma safe_fetch_runs:
  obtains
    (first) r w1 where "succeeds_on_attempt method w 1" "invocation method w 1 = Inr r"
      "safe_fetch str_of method w = (Inr r, [Called], w1)"
  | (second) e1 r w2 where "succeeds_on_attempt method w 2" "invocation method w 2 = Inr r"
      "safe_fetch str_of method w =
         (Inr r, [Called, request_failed str_of e1, Slept 2, Called], w2)"
  | (third) e1 e2 r w3 where "succeeds_on_attempt method w 3"
      "invocation method w 3 = Inr r"
      "safe_fetch str_of method w =
         (Inr r,
          [Called, request_failed str_of e1, Slept 2,
           Called, request_failed str_of e2, Slept 2, Called], w3)"
  | (none) e1 e2 e3 w3 where "fails_three_times method w" "invocation method w 3 = Inl e3"
      "safe_fetch str_of method w =
         (Inl (RetryError e3),
          [Called, request_failed str_of e1, Slept 2,
           Called, request_failed str_of e2, Slept 2,
           Called, request_failed str_of e3], w3)"
proof (cases rule: three_attempts [of "method" w])
  case (first r w1)
  then show ?thesis
    using safe_fetch_first [of "method", OF first(1)] that(1) by blast
next
  case (second e1 w1 r w2)
  then show ?thesis
    using safe_fetch_second [of "method", OF second(1,2)] that(2) by blast
next
  case (third e1 w1 e2 w2 r w3)
  then show ?thesis
    using safe_fetch_third [of "method", OF third(1,2,3)] that(3) by blast
next
  case (none e1 w1 e2 w2 e3 w3)
  then show ?thesis
    using safe_fetch_none [of "method", OF none(1,2,3)] that(4) by blast
qed

lemma telegram_runs [consumes 1]:
  assumes "is_configured cfg"
  obtains
    (first) w1 where
      "succeeds_on_attempt (delivery cfg send_message content title_arg) w 1"
      "send_telegram_message str_of cfg send_message content title_arg w =
         (Inr PyNone, attempt_events cfg content title_arg @ [sent_ok], w1)"
  | (second) e1 w2 where
      "succeeds_on_attempt (delivery cfg send_message content title_arg) w 2"
      "send_telegram_message str_of cfg send_message content title_arg w =
         (Inr PyNone,
          attempt_events cfg content title_arg @ send_failed str_of e1 # Slept 2 #
          attempt_events cfg content title_arg @ [sent_ok], w2)"
  | (third) e1 e2 w3 where
      "succeeds_on_attempt (delivery cfg send_message content title_arg) w 3"
      "send_telegram_message str_of cfg send_message content title_arg w =
         (Inr PyNone,
          attempt_events cfg content title_arg @ send_failed str_of e1 # Slept 2 #
          attempt_events cfg content title_arg @ send_failed str_of e2 # Slept 2 #
          attempt_events cfg content title_arg @ [sent_ok], w3)"
  | (none) e1 e2 e3 w3 where
      "fails_three_times (delivery cfg send_message content title_arg) w"
      "invocation (delivery cfg send_message content title_arg) w 3 = Inl e3"
      "send_telegram_message str_of cfg send_message content title_arg w =
         (Inl (RetryError e3),
          attempt_events cfg content title_arg @ send_failed str_of e1 # Slept 2 #
          attempt_events cfg content title_arg @ send_failed str_of e2 # Slept 2 #
          attempt_events cfg content title_arg @ [send_failed str_of e3], w3)"
proof (cases rule: three_attempts [of "delivery cfg send_message content title_arg" w])
  case (first r w1)
  then show ?thesis
    using telegram_first [OF assms first(1)] that(1) by blast
next
  case (second e1 w1 r w2)
  then show ?thesis
    using telegram_second [OF assms second(1,2)] that(2) by blast
next
  case (third e1 w1 e2 w2 r w3)
  then show ?thesis
    using telegram_third [OF assms third(1,2,3)] that(3) by blast
next
  case (none e1 w1 e2 w2 e3 w3)
  then show ?thesis
    using telegram_none [OF assms none(1,2,3)] that(4) by blast
qed


section \<open>The example operations\<close>

lemma always_raises_fails: "fails_three_times (always_raises e) w"
  by (simp add: fails_three_times_def invocation_def always_raises_def)

lemma always_raises_third: "invocation (always_raises e) w 3 = Inl e"
  by (simp add: invocation_def always_raises_def)

lemma configured_ok: "is_configured configured"
  by (simp add: is_configured_def configured_def ascii_def)

lemma unconfigured_not_ok: "\<not> is_configured unconfigured"
  by (simp add: is_configured_def unconfigured_def)

lemma dead_transport_fails:
  "fails_three_times (delivery cfg (dead_transport e) content title_arg) w"
  by (simp add: delivery_def dead_transport_def always_raises_fails)

lemma dead_transport_third:
  "invocation (delivery cfg (dead_transport e) content title_arg) w 3 = Inl e"
  by (simp add: delivery_def dead_transport_def always_raises_third)

lemma flaky_third: "succeeds_on_attempt (flaky 2 e v) 0 3"
proof -
  have "{Suc 0..<3} = {Suc 0, 2}"
    by auto
  then show ?thesis
    by (simp add: succeeds_on_attempt_def invocation_1 invocation_2 invocation_3 flaky_def)
qed

lemma flaky_third_result: "invocation (flaky 2 e v) 0 3 = Inr v"
  by (simp add: invocation_3 flaky_def)

lemma flaky_transport_third:
  "succeeds_on_attempt (delivery cfg (flaky_transport 2 e) content title_arg) 0 3"
  unfolding delivery_def flaky_transport_def by (rule flaky_third)

section \<open>The claims\<close>

text \<open>
  C1, as amended. When the operation raises at each of its three invocations,
  \<open>safe_fetch\<close> invokes it exactly three times and then raises tenacity's \<open>RetryError\<close>,
  which holds the error of the third invocation. The decorator is applied without
  \<open>reraise=True\<close>, so the error that reaches the caller is the wrapper and not the
  third error itself.
\<close>

theorem safe_fetch_exhausted:
  assumes "fails_three_times method w"
  shows "(case safe_fetch str_of method w of
            (r, evs, w') \<Rightarrow>
              r = Inl (RetryError (projl (invocation method w 3))) \<and>
              count_list evs Called = 3)"
proof (cases rule: safe_fetch_runs [of "method" w str_of])
  case (first r w1)
  with assms show ?thesis
    using succeeds_not_fails [of "method" w 1] by simp
next
  case (second e1 r w2)
  with assms show ?thesis
    using succeeds_not_fails [of "method" w 2] by simp
next
  case (third e1 e2 r w3)
  with assms show ?thesis
    using succeeds_not_fails [of "method" w 3] by simp
next
  case (none e1 e2 e3 w3)
  then show ?thesis
    by simp
qed

theorem safe_fetch_exhausted_witness:
  "fails_three_times (always_raises boom :: (nat, unit) operation) 0 \<and>
   (case safe_fetch message_of (always_raises boom :: (nat, unit) operation) 0 of
      (r, evs, w') \<Rightarrow>
        r = Inl (RetryError (projl (invocation (always_raises boom :: (nat, unit) operation) 0 3))) \<and>
        count_list evs Called = 3)"
proof -
  have h: "fails_three_times (always_raises boom :: (nat, unit) operation) 0"
    by (rule always_raises_fails)
  from h safe_fetch_exhausted [OF h] show ?thesis
    by (rule conjI)
qed

text \<open>
  C1 as it is written fails: the operation below raises \<open>boom\<close> at every
  invocation, and what \<open>safe_fetch\<close> raises is not the error of the third invocation.
\<close>

theorem safe_fetch_error_is_wrapped:
  "fails_three_times (always_raises boom :: (nat, unit) operation) 0 \<and>
   fst (safe_fetch message_of (always_raises boom :: (nat, unit) operation) 0) \<noteq>
     invocation (always_raises boom :: (nat, unit) operation) 0 3"
proof -
  have "safe_fetch message_of (always_raises boom :: (nat, unit) operation) 0 =
          (Inl (RetryError boom),
           [Called, request_failed message_of boom, Slept 2,
            Called, request_failed message_of boom, Slept 2,
            Called, request_failed message_of boom], 3)"
    by (rule safe_fetch_none [where ?w1.0 = 1 and ?w2.0 = 2])
      (simp_all add: always_raises_def)
  then show ?thesis
    by (simp add: always_raises_fails always_raises_third)
qed

text \<open>
  C2, as amended. When the delivery fails at each of the three attempts,
  \<open>send_telegram_message\<close> calls the transport three times, logs each failure at error
  level, and then raises \<open>RetryError\<close> holding the third error to its caller: nothing in
  the function catches what the retry decorator raises.
\<close>

theorem send_telegram_message_exhausted:
  assumes "is_configured cfg"
    and "fails_three_times (delivery cfg send_message content title_arg) w"
  shows "(case send_telegram_message str_of cfg send_message content title_arg w of
            (r, evs, w') \<Rightarrow>
              r = Inl (RetryError
                    (projl (invocation (delivery cfg send_message content title_arg) w 3))) \<and>
              length (sent_texts evs) = 3 \<and>
              length (filter (logged_at ERROR) evs) = 3)"
  using assms(1)
proof (cases rule: telegram_runs [of cfg send_message content title_arg w str_of])
  case (first w1)
  with assms(2) show ?thesis
    using succeeds_not_fails [of "delivery cfg send_message content title_arg" w 1] by simp
next
  case (second e1 w2)
  with assms(2) show ?thesis
    using succeeds_not_fails [of "delivery cfg send_message content title_arg" w 2] by simp
next
  case (third e1 e2 w3)
  with assms(2) show ?thesis
    using succeeds_not_fails [of "delivery cfg send_message content title_arg" w 3] by simp
next
  case (none e1 e2 e3 w3)
  then show ?thesis
    by simp
qed

theorem send_telegram_message_exhausted_witness:
  "is_configured configured \<and>
   fails_three_times (delivery configured (dead_transport timed_out) (ascii ''hello'') None) 0 \<and>
   (case send_telegram_message message_of configured (dead_transport timed_out)
           (ascii ''hello'') None 0 of
      (r, evs, w') \<Rightarrow>
        r = Inl (RetryError
              (projl (invocation
                 (delivery configured (dead_transport timed_out) (ascii ''hello'') None) 0 3))) \<and>
        length (sent_texts evs) = 3 \<and>
        length (filter (logged_at ERROR) evs) = 3)"
proof -
  have c: "is_configured configured"
    by (rule configured_ok)
  have f: "fails_three_times
             (delivery configured (dead_transport timed_out) (ascii ''hello'') None) 0"
    by (rule dead_transport_fails)
  from c f send_telegram_message_exhausted [OF c f] show ?thesis
    by (intro conjI)
qed

text \<open>
  C2 as it is written fails: with the configuration present and a transport that
  always raises, the call of \<open>send_telegram_message\<close> ends in a raised error.
\<close>

theorem send_telegram_message_raises:
  "is_configured configured \<and>
   isl (fst (send_telegram_message message_of configured (dead_transport timed_out)
               (ascii ''hello'') None 0))"
proof -
  have "fst (send_telegram_message message_of configured (dead_transport timed_out)
               (ascii ''hello'') None 0) = Inl (RetryError timed_out)"
    using configured_ok
  proof (cases rule: telegram_runs [of configured "dead_transport timed_out"
          "ascii ''hello''" None 0 message_of])
    case (none e1 e2 e3 w3)
    then show ?thesis
      by (simp add: dead_transport_third)
  qed (use succeeds_not_fails dead_transport_fails in \<open>fastforce+\<close>)
  then show ?thesis
    by (simp add: configured_ok)
qed

text \<open>
  C4. When the bot token or the chat id is missing (\<open>None\<close> or empty),
  \<open>send_telegram_message\<close> logs one error that describes the missing configuration and
  returns \<open>None\<close>: the transport is not called, nothing is slept, no attempt is
  repeated, and the world is left as it was. The call returns, where a failed delivery
  raises.
\<close>

theorem missing_configuration_is_a_noop:
  assumes "falsy (TELEGRAM_BOT_TOKEN cfg) \<or> falsy (TELEGRAM_CHAT_ID cfg)"
  shows "(case send_telegram_message str_of cfg send_message content title_arg w of
            (r, evs, w') \<Rightarrow>
              r = Inr PyNone \<and>
              evs =
                [Logged ERROR
                   ([0x672A, 0x914D, 0x7F6E] @ ascii ''TELEGRAM_BOT_TOKEN'' @ [0x6216] @
                    ascii ''TELEGRAM_CHAT_ID'' @ [0xFF0C, 0x65E0, 0x6CD5, 0x53D1, 0x9001] @
                    ascii ''Telegram'' @ [0x901A, 0x77E5]) False] \<and>
              sent_texts evs = [] \<and> sleeps evs = [] \<and> w' = w)"
proof -
  from assms have "\<not> is_configured cfg"
    by (simp add: is_configured_def)
  then show ?thesis
    by (simp add: telegram_unconfigured not_configured_def)
qed

theorem missing_configuration_witness:
  "(falsy (TELEGRAM_BOT_TOKEN unconfigured) \<or> falsy (TELEGRAM_CHAT_ID unconfigured)) \<and>
   (case send_telegram_message message_of unconfigured (dead_transport timed_out)
           (ascii ''hello'') None (0::nat) of
      (r, evs, w') \<Rightarrow>
        r = Inr PyNone \<and>
        evs =
          [Logged ERROR
             ([0x672A, 0x914D, 0x7F6E] @ ascii ''TELEGRAM_BOT_TOKEN'' @ [0x6216] @
              ascii ''TELEGRAM_CHAT_ID'' @ [0xFF0C, 0x65E0, 0x6CD5, 0x53D1, 0x9001] @
              ascii ''Telegram'' @ [0x901A, 0x77E5]) False] \<and>
        sent_texts evs = [] \<and> sleeps evs = [] \<and> w' = 0)"
proof -
  have h: "falsy (TELEGRAM_BOT_TOKEN unconfigured) \<or> falsy (TELEGRAM_CHAT_ID unconfigured)"
    by (simp add: unconfigured_def)
  from h missing_configuration_is_a_noop [OF h] show ?thesis
    by (rule conjI)
qed


lemma size_policy_cases:
  "(length r \<le> 4000 \<longrightarrow> size_policy r = r) \<and>
   (4000 < length r \<longrightarrow>
      size_policy r = take 4000 r @ ascii ''...'' \<and> length (size_policy r) = 4003)"
  by (simp add: size_policy_def ascii_def)

lemma size_policy_take: "take 4000 (size_policy r) = take 4000 r"
  by (simp add: size_policy_def)

lemma too_long_in_attempt:
  assumes "4000 < length (rendered (title_or_default title_arg) content)"
  shows "too_long (length (rendered (title_or_default title_arg) content))
           \<in> set (attempt_events cfg content title_arg)"
  using assms by (simp add: attempt_events_def Let_def)

lemma telegram_sent_texts:
  assumes "is_configured cfg"
  shows "sent_texts (fst (snd (send_telegram_message str_of cfg send_message content title_arg w)))
           \<noteq> [] \<and>
         set (sent_texts
               (fst (snd (send_telegram_message str_of cfg send_message content title_arg w)))) =
           {size_policy (rendered (title_or_default title_arg) content)}"
  using assms
  by (cases rule: telegram_runs [of cfg send_message content title_arg w str_of]) simp_all

lemma telegram_warns:
  assumes "is_configured cfg"
    and "4000 < length (rendered (title_or_default title_arg) content)"
  shows "too_long (length (rendered (title_or_default title_arg) content))
           \<in> set (fst (snd (send_telegram_message str_of cfg send_message content title_arg w)))"
  using assms(1)
  by (cases rule: telegram_runs [of cfg send_message content title_arg w str_of])
    (simp_all add: too_long_in_attempt [OF assms(2)])

text \<open>
  C3. With the configuration present, every text handed to the transport is the rendered
  message itself when its length \<open>L\<close> is at most 4000, and otherwise its first 4000
  characters followed by \<open>...\<close>, 4003 characters in all; in the second case a warning
  whose message holds the decimal digits of \<open>L\<close> is logged. The transport is called at
  least once.
\<close>

theorem size_policy_of_the_sent_text:
  assumes "is_configured cfg"
  shows "(let full = rendered (title_or_default title_arg) content; L = length full in
          case send_telegram_message str_of cfg send_message content title_arg w of
            (r, evs, w') \<Rightarrow>
              sent_texts evs \<noteq> [] \<and>
              (\<forall>text \<in> set (sent_texts evs).
                 (L \<le> 4000 \<longrightarrow> text = full) \<and>
                 (L > 4000 \<longrightarrow> text = take 4000 full @ ascii ''...'' \<and> length text = 4003)) \<and>
              (L > 4000 \<longrightarrow>
                 Logged WARNING
                   ([0x6D88, 0x606F, 0x8FC7, 0x957F] @ ascii '' ('' @ decimal L @
                    ascii '' chars)'' @ [0xFF0C, 0x5C06, 0x88AB, 0x622A, 0x65AD] @ ascii ''.'')
                   False \<in> set evs))"
proof -
  let ?full = "rendered (title_or_default title_arg) content"
  obtain r evs w' where run:
    "send_telegram_message str_of cfg send_message content title_arg w = (r, evs, w')"
    by (cases "send_telegram_message str_of cfg send_message content title_arg w")
  from telegram_sent_texts [OF assms, of str_of send_message content title_arg w] run
  have texts: "sent_texts evs \<noteq> []" "set (sent_texts evs) = {size_policy ?full}"
    by simp_all
  have warn: "too_long (length ?full) \<in> set evs" if "4000 < length ?full"
    using telegram_warns [OF assms that, of str_of send_message w] run by simp
  have "length (ascii ''...'') = 3"
    by (simp add: ascii_def)
  with texts warn size_policy_cases [of ?full] show ?thesis
    by (simp add: run Let_def too_long_def)
qed

lemma long_body_rendered: "length (rendered (title_or_default None) long_body) = 4508"
  by (simp add: rendered_def title_or_default_def default_title_def ascii_def long_body_def)

theorem size_policy_witness:
  "is_configured configured \<and>
   length (rendered (title_or_default None) long_body) = 4508 \<and>
   hd (sent_texts (fst (snd (send_telegram_message message_of configured
         (flaky_transport 0 boom) long_body None 0)))) =
     take 4000 (rendered (title_or_default None) long_body) @ ascii ''...'' \<and>
   length (hd (sent_texts (fst (snd (send_telegram_message message_of configured
         (flaky_transport 0 boom) long_body None 0))))) = 4003 \<and>
   Logged WARNING
     ([0x6D88, 0x606F, 0x8FC7, 0x957F] @ ascii '' ('' @ decimal 4508 @
      ascii '' chars)'' @ [0xFF0C, 0x5C06, 0x88AB, 0x622A, 0x65AD] @ ascii ''.'')
     False
     \<in> set (fst (snd (send_telegram_message message_of configured
         (flaky_transport 0 boom) long_body None 0)))"
proof -
  obtain r evs w' where run:
    "send_telegram_message message_of configured (flaky_transport 0 boom) long_body None 0 =
       (r, evs, w')"
    by (cases "send_telegram_message message_of configured (flaky_transport 0 boom)
          long_body None 0")
  note t = size_policy_of_the_sent_text [OF configured_ok, where title_arg = None
      and content = long_body and str_of = message_of
      and send_message = "flaky_transport 0 boom" and w = 0]
  from t have a: "sent_texts evs \<noteq> []"
    by (simp add: Let_def run)
  from t have b: "\<forall>text \<in> set (sent_texts evs).
      text = take 4000 (rendered (title_or_default None) long_body) @ ascii ''...'' \<and>
      length text = 4003"
    by (simp add: Let_def run long_body_rendered)
  from t have c: "Logged WARNING
     ([0x6D88, 0x606F, 0x8FC7, 0x957F] @ ascii '' ('' @ decimal 4508 @
      ascii '' chars)'' @ [0xFF0C, 0x5C06, 0x88AB, 0x622A, 0x65AD] @ ascii ''.'')
     False \<in> set evs"
    by (simp add: Let_def run long_body_rendered)
  from a have "hd (sent_texts evs) \<in> set (sent_texts evs)"
    by simp
  with b c show ?thesis
    by (simp add: run long_body_rendered configured_ok)
qed

lemma spec_delay_standard: "spec_delay 10 2 1 i = 2"
  by (simp add: spec_delay_def)

lemma all_two:
  assumes "set ds \<subseteq> {2::int}" and "Suc 0 \<le> i" and "i \<le> length ds"
  shows "ds ! (i - Suc 0) = 2"
proof -
  from assms(2,3) have "i - Suc 0 < length ds"
    by auto
  then have "ds ! (i - Suc 0) \<in> set ds"
    by (rule nth_mem)
  with assms(1) show ?thesis
    by auto
qed

lemma safe_fetch_sleeps:
  "set (sleeps (fst (snd (safe_fetch str_of method w)))) \<subseteq> {2}"
  by (cases rule: safe_fetch_runs [of "method" w str_of]) simp_all

lemma telegram_sleeps:
  "set (sleeps (fst (snd (send_telegram_message str_of cfg send_message content title_arg w))))
     \<subseteq> {2}"
proof (cases "is_configured cfg")
  case True
  then show ?thesis
    by (cases rule: telegram_runs [of cfg send_message content title_arg w str_of]) simp_all
next
  case False
  then show ?thesis
    by (simp add: telegram_unconfigured not_configured_def)
qed

text \<open>
  C5. Under the policy of both decorators (three attempts, \<open>min = 2\<close>, \<open>max = 10\<close>,
  \<open>multiplier = 1\<close>), the \<open>i\<close>-th sleep of a run of \<open>safe_fetch\<close> and of
  \<open>send_telegram_message\<close>, the one after the failed attempt \<open>i\<close>, lasts
  \<open>min(max_delay, base_delay * multiplier^(i-1))\<close> seconds, which is 2; and what
  \<open>wait_exponential\<close> computes is at most \<open>max_delay = 10\<close> at every attempt number.
\<close>

theorem backoff_is_two_seconds:
  "(case safe_fetch str_of method w of
      (r, evs, w') \<Rightarrow>
        \<forall>i \<in> {1..length (sleeps evs)}.
          sleeps evs ! (i - 1) = spec_delay 10 2 1 i \<and> sleeps evs ! (i - 1) = 2) \<and>
   (case send_telegram_message str_of' cfg send_message content title_arg v of
      (r, evs, w') \<Rightarrow>
        \<forall>i \<in> {1..length (sleeps evs)}.
          sleeps evs ! (i - 1) = spec_delay 10 2 1 i \<and> sleeps evs ! (i - 1) = 2) \<and>
   (\<forall>n. wait_exponential 1 2 10 n \<le> 10)"
proof (intro conjI)
  show "case safe_fetch str_of method w of
      (r, evs, w') \<Rightarrow>
        \<forall>i \<in> {1..length (sleeps evs)}.
          sleeps evs ! (i - 1) = spec_delay 10 2 1 i \<and> sleeps evs ! (i - 1) = 2"
    using safe_fetch_sleeps [of str_of "method" w]
    by (auto simp: spec_delay_standard intro: all_two)
  show "case send_telegram_message str_of' cfg send_message content title_arg v of
      (r, evs, w') \<Rightarrow>
        \<forall>i \<in> {1..length (sleeps evs)}.
          sleeps evs ! (i - 1) = spec_delay 10 2 1 i \<and> sleeps evs ! (i - 1) = 2"
    using telegram_sleeps [of str_of' cfg send_message content title_arg v]
    by (auto simp: spec_delay_standard intro: all_two)
  show "\<forall>n. wait_exponential 1 2 10 n \<le> 10"
    by (simp add: wait_standard_le)
qed

lemma flaky_2_run:
  "safe_fetch message_of (flaky 2 boom ()) 0 =
     (Inr (),
      [Called, request_failed message_of boom, Slept 2,
       Called, request_failed message_of boom, Slept 2, Called], 3)"
  by (rule safe_fetch_third [where ?w1.0 = 1 and ?w2.0 = 2]) (simp_all add: flaky_def)

theorem backoff_is_two_seconds_witness:
  "length (sleeps (fst (snd (safe_fetch message_of (flaky 2 boom ()) 0)))) = 2 \<and>
   sleeps (fst (snd (safe_fetch message_of (flaky 2 boom ()) 0))) ! 0 = spec_delay 10 2 1 1 \<and>
   sleeps (fst (snd (safe_fetch message_of (flaky 2 boom ()) 0))) ! 1 = spec_delay 10 2 1 2"
proof -
  have len: "length (sleeps (fst (snd (safe_fetch message_of (flaky 2 boom ()) 0)))) = 2"
    by (simp add: flaky_2_run)
  from backoff_is_two_seconds
    [of message_of "flaky 2 boom ()" 0 message_of configured "dead_transport boom" "[]" None 0]
  have "\<forall>i \<in> {1..length (sleeps (fst (snd (safe_fetch message_of (flaky 2 boom ()) 0))))}.
          sleeps (fst (snd (safe_fetch message_of (flaky 2 boom ()) 0))) ! (i - 1) =
            spec_delay 10 2 1 i"
    by (simp add: flaky_2_run)
  then have "\<forall>i \<in> {1..2}.
          sleeps (fst (snd (safe_fetch message_of (flaky 2 boom ()) 0))) ! (i - 1) =
            spec_delay 10 2 1 i"
    unfolding len .
  then have all: "\<And>i. i \<in> {1..2} \<Longrightarrow>
          sleeps (fst (snd (safe_fetch message_of (flaky 2 boom ()) 0))) ! (i - 1) =
            spec_delay 10 2 1 i"
    by blast
  have "sleeps (fst (snd (safe_fetch message_of (flaky 2 boom ()) 0))) ! 0 =
            spec_delay 10 2 1 1"
    using all [of 1] by simp
  moreover have "sleeps (fst (snd (safe_fetch message_of (flaky 2 boom ()) 0))) ! 1 =
            spec_delay 10 2 1 2"
    using all [of 2] by simp
  ultimately show ?thesis
    using len by blast
qed


text \<open>
  C6. An operation that succeeds on attempt \<open>k \<le> 3\<close> is invoked by \<open>safe_fetch\<close> exactly
  \<open>k\<close> times; the run has \<open>k - 1\<close> sleeps and ends with the successful invocation, so
  no sleep follows it; and the result of that invocation is returned as it is. For
  \<open>send_telegram_message\<close>, whose body drops the transport's message and returns \<open>None\<close>:
  the transport is called exactly \<open>k\<close> times, with \<open>k - 1\<close> sleeps, and only the log
  of the success follows the last call.
\<close>

theorem retry_stops_at_success:
  assumes "k \<le> 3"
  shows "(succeeds_on_attempt method w k \<longrightarrow>
            (case safe_fetch str_of method w of
               (r, evs, w') \<Rightarrow>
                 r = invocation method w k \<and> \<not> isl r \<and> count_list evs Called = k \<and>
                 length (sleeps evs) = k - 1 \<and> last evs = Called)) \<and>
         (is_configured cfg \<and>
          succeeds_on_attempt (delivery cfg send_message content title_arg) v k \<longrightarrow>
            (case send_telegram_message str_of' cfg send_message content title_arg v of
               (r, evs, w') \<Rightarrow>
                 r = Inr PyNone \<and> length (sent_texts evs) = k \<and>
                 length (sleeps evs) = k - 1 \<and> sleeps (after_send evs) = []))"
proof (intro conjI impI)
  assume s: "succeeds_on_attempt method w k"
  show "case safe_fetch str_of method w of
          (r, evs, w') \<Rightarrow>
            r = invocation method w k \<and> \<not> isl r \<and> count_list evs Called = k \<and>
            length (sleeps evs) = k - 1 \<and> last evs = Called"
  proof (cases rule: safe_fetch_runs [of "method" w str_of])
    case (first r w1)
    with s have "k = 1"
      by (metis succeeds_on_attempt_unique)
    with first show ?thesis
      by simp
  next
    case (second e1 r w2)
    with s have "k = 2"
      by (metis succeeds_on_attempt_unique)
    with second show ?thesis
      by simp
  next
    case (third e1 e2 r w3)
    with s have "k = 3"
      by (metis succeeds_on_attempt_unique)
    with third show ?thesis
      by simp
  next
    case (none e1 e2 e3 w3)
    with s assms show ?thesis
      by (metis succeeds_not_fails)
  qed
next
  assume "is_configured cfg \<and>
          succeeds_on_attempt (delivery cfg send_message content title_arg) v k"
  then have c: "is_configured cfg"
    and s: "succeeds_on_attempt (delivery cfg send_message content title_arg) v k"
    by simp_all
  from c show "case send_telegram_message str_of' cfg send_message content title_arg v of
          (r, evs, w') \<Rightarrow>
            r = Inr PyNone \<and> length (sent_texts evs) = k \<and>
            length (sleeps evs) = k - 1 \<and> sleeps (after_send evs) = []"
  proof (cases rule: telegram_runs [of cfg send_message content title_arg v str_of'])
    case (first w1)
    with s have "k = 1"
      by (metis succeeds_on_attempt_unique)
    with first show ?thesis
      by simp
  next
    case (second e1 w2)
    with s have "k = 2"
      by (metis succeeds_on_attempt_unique)
    with second show ?thesis
      using after_send_attempt [of sent_ok "attempt_events cfg content title_arg @
          [send_failed str_of' e1, Slept 2]" cfg content title_arg]
      by simp
  next
    case (third e1 e2 w3)
    with s have "k = 3"
      by (metis succeeds_on_attempt_unique)
    with third show ?thesis
      using after_send_attempt [of sent_ok "attempt_events cfg content title_arg @
          send_failed str_of' e1 # Slept 2 # attempt_events cfg content title_arg @
          [send_failed str_of' e2, Slept 2]" cfg content title_arg]
      by simp
  next
    case (none e1 e2 e3 w3)
    with s assms show ?thesis
      by (metis succeeds_not_fails)
  qed
qed

theorem retry_stops_at_success_witness:
  "(3::nat) \<le> 3 \<and> succeeds_on_attempt (flaky 2 boom (7::nat)) 0 3 \<and>
   (case safe_fetch message_of (flaky 2 boom (7::nat)) 0 of
      (r, evs, w') \<Rightarrow>
        r = invocation (flaky 2 boom (7::nat)) 0 3 \<and> \<not> isl r \<and> count_list evs Called = 3 \<and>
        length (sleeps evs) = 3 - 1 \<and> last evs = Called) \<and>
   invocation (flaky 2 boom (7::nat)) 0 3 = Inr 7 \<and>
   is_configured configured \<and>
   succeeds_on_attempt (delivery configured (flaky_transport 2 timed_out) (ascii ''hello'') None)
     0 3 \<and>
   (case send_telegram_message message_of configured (flaky_transport 2 timed_out)
           (ascii ''hello'') None 0 of
      (r, evs, w') \<Rightarrow>
        r = Inr PyNone \<and> length (sent_texts evs) = 3 \<and>
        length (sleeps evs) = 3 - 1 \<and> sleeps (after_send evs) = [])"
proof -
  have k: "(3::nat) \<le> 3"
    by simp
  have s: "succeeds_on_attempt (flaky 2 boom (7::nat)) 0 3"
    by (rule flaky_third)
  have c: "is_configured configured"
    by (rule configured_ok)
  have t: "succeeds_on_attempt
             (delivery configured (flaky_transport 2 timed_out) (ascii ''hello'') None) 0 3"
    by (rule flaky_transport_third)
  note inst = retry_stops_at_success [OF k, of "flaky 2 boom (7::nat)" 0 message_of configured
      "flaky_transport 2 timed_out" "ascii ''hello''" None 0 message_of]
  from inst [THEN conjunct1, THEN mp, OF s] have 1: "case safe_fetch message_of (flaky 2 boom (7::nat)) 0 of
      (r, evs, w') \<Rightarrow>
        r = invocation (flaky 2 boom (7::nat)) 0 3 \<and> \<not> isl r \<and> count_list evs Called = 3 \<and>
        length (sleeps evs) = 3 - 1 \<and> last evs = Called" .
  from inst [THEN conjunct2, THEN mp, OF conjI [OF c t]] have 2: "case send_telegram_message message_of configured
           (flaky_transport 2 timed_out) (ascii ''hello'') None 0 of
      (r, evs, w') \<Rightarrow>
        r = Inr PyNone \<and> length (sent_texts evs) = 3 \<and>
        length (sleeps evs) = 3 - 1 \<and> sleeps (after_send evs) = []" .
  from k s 1 flaky_third_result [of boom "7::nat"] c t 2 show ?thesis
    by (intro conjI)
qed


lemma dead_transport_delivery:
  "delivery cfg (dead_transport e) content title_arg w = (Inl e, Suc w)"
  by (simp add: delivery_def dead_transport_def always_raises_def)

lemma working_transport_delivery:
  "delivery cfg (flaky_transport 0 e) content title_arg w = (Inr (), Suc w)"
  by (simp add: delivery_def flaky_transport_def flaky_def)

text \<open>
  C7. An attempt of \<open>send_telegram_message\<close> whose call of the transport raises \<open>e\<close>
  ends with an error-level log call and raises \<open>e\<close> again: for a \<open>TelegramError\<close> the
  message is the transport's error text after a fixed prefix, for any other error it
  is the error text after another prefix and the call passes \<open>exc_info=True\<close>. Whatever
  the kind of \<open>e\<close>, at every attempt number below three the retry loop then sleeps and
  runs the next attempt.
\<close>

theorem failed_attempt_is_logged_and_retried:
  assumes "is_configured cfg"
    and "delivery cfg send_message content title_arg w = (Inl e, w')"
  shows "(case send_telegram_message_attempt str_of cfg send_message content title_arg w of
            (r, evs, w'') \<Rightarrow>
              r = Inl e \<and> w'' = w' \<and>
              last evs =
                (case e of
                   TelegramError d \<Rightarrow>
                     Logged ERROR
                       (ascii ''Telegram'' @ [0x6D88, 0x606F, 0x53D1, 0x9001, 0x5931, 0x8D25] @
                        ascii '': '' @ str_of e) False
                 | _ \<Rightarrow>
                     Logged ERROR
                       ([0x53D1, 0x9001] @ ascii ''Telegram'' @
                        [0x6D88, 0x606F, 0x65F6, 0x53D1, 0x751F, 0x672A, 0x77E5, 0x9519, 0x8BEF] @
                        ascii '': '' @ str_of e) True) \<and>
              (\<forall>a < 3.
                 retrying 3 (wait_exponential 1 2 10)
                   (send_telegram_message_attempt str_of cfg send_message content title_arg) a w =
                 (case retrying 3 (wait_exponential 1 2 10)
                         (send_telegram_message_attempt str_of cfg send_message content title_arg)
                         (Suc a) w' of
                    (r', evs', v) \<Rightarrow>
                      (r', evs @ Slept (wait_exponential 1 2 10 a) # evs', v))))"
proof -
  let ?fn = "send_telegram_message_attempt str_of cfg send_message content title_arg"
  let ?evs = "attempt_events cfg content title_arg @ [send_failed str_of e]"
  have run: "?fn w = (Inl e, ?evs, w')"
    by (rule attempt_raised [OF assms])
  have log: "last ?evs = send_failed str_of e"
    by simp
  have again: "retrying 3 (wait_exponential 1 2 10) ?fn a w =
      (case retrying 3 (wait_exponential 1 2 10) ?fn (Suc a) w' of
         (r', evs', v) \<Rightarrow> (r', ?evs @ Slept (wait_exponential 1 2 10 a) # evs', v))"
    if "a < 3" for a
    using retrying_more [OF that refl, of "wait_exponential 1 2 10" ?fn w]
    by (simp add: run)
  from log again show ?thesis
    unfolding run by (simp add: send_failed_def)
qed

theorem failed_attempt_witness:
  "is_configured configured \<and>
   delivery configured (dead_transport timed_out) (ascii ''hello'') None 0 = (Inl timed_out, 1) \<and>
   fst (send_telegram_message_attempt message_of configured (dead_transport timed_out)
          (ascii ''hello'') None 0) = Inl timed_out \<and>
   last (fst (snd (send_telegram_message_attempt message_of configured
          (dead_transport timed_out) (ascii ''hello'') None 0))) =
     Logged ERROR
       (ascii ''Telegram'' @ [0x6D88, 0x606F, 0x53D1, 0x9001, 0x5931, 0x8D25] @
        ascii '': '' @ ascii ''Timed out'') False \<and>
   delivery configured (dead_transport boom) (ascii ''hello'') None 0 = (Inl boom, 1) \<and>
   fst (send_telegram_message_attempt message_of configured (dead_transport boom)
          (ascii ''hello'') None 0) = Inl boom \<and>
   last (fst (snd (send_telegram_message_attempt message_of configured
          (dead_transport boom) (ascii ''hello'') None 0))) =
     Logged ERROR
       ([0x53D1, 0x9001] @ ascii ''Telegram'' @
        [0x6D88, 0x606F, 0x65F6, 0x53D1, 0x751F, 0x672A, 0x77E5, 0x9519, 0x8BEF] @
        ascii '': '' @ ascii ''boom'') True"
proof -
  have t: "delivery configured (dead_transport timed_out) (ascii ''hello'') None 0 =
             (Inl timed_out, 1)"
    by (simp add: dead_transport_delivery)
  have b: "delivery configured (dead_transport boom) (ascii ''hello'') None 0 = (Inl boom, 1)"
    by (simp add: dead_transport_delivery)
  from failed_attempt_is_logged_and_retried [OF configured_ok t, of message_of]
  have 1: "fst (send_telegram_message_attempt message_of configured (dead_transport timed_out)
          (ascii ''hello'') None 0) = Inl timed_out"
    and 2: "last (fst (snd (send_telegram_message_attempt message_of configured
          (dead_transport timed_out) (ascii ''hello'') None 0))) =
     Logged ERROR
       (ascii ''Telegram'' @ [0x6D88, 0x606F, 0x53D1, 0x9001, 0x5931, 0x8D25] @
        ascii '': '' @ ascii ''Timed out'') False"
    by (simp_all add: case_prod_beta timed_out_def)
  from failed_attempt_is_logged_and_retried [OF configured_ok b, of message_of]
  have 3: "fst (send_telegram_message_attempt message_of configured (dead_transport boom)
          (ascii ''hello'') None 0) = Inl boom"
    and 4: "last (fst (snd (send_telegram_message_attempt message_of configured
          (dead_transport boom) (ascii ''hello'') None 0))) =
     Logged ERROR
       ([0x53D1, 0x9001] @ ascii ''Telegram'' @
        [0x6D88, 0x606F, 0x65F6, 0x53D1, 0x751F, 0x672A, 0x77E5, 0x9519, 0x8BEF] @
        ascii '': '' @ ascii ''boom'') True"
    by (simp_all add: case_prod_beta boom_def)
  from configured_ok t 1 2 b 3 4 show ?thesis
    by (intro conjI)
qed

text \<open>
  C8. With the configuration present and a title given, every text handed to the
  transport is \<open>*title*\<close>, a blank line and the body, whole when that is at most 4000
  characters long and agreeing with it on the first 4000 characters otherwise. A call
  that omits the title is the call with the title \<open>[0x4EA4, 0x6613, 0x901A, 0x77E5]\<close>,
  the four characters of the default label.
\<close>

theorem message_rendering:
  assumes "is_configured cfg"
  shows "(let full = ascii ''*'' @ title @ ascii ''*'' @ [10, 10] @ content in
          case send_telegram_message str_of cfg send_message content (Some title) w of
            (r, evs, w') \<Rightarrow>
              sent_texts evs \<noteq> [] \<and>
              (\<forall>text \<in> set (sent_texts evs).
                 take 4000 text = take 4000 full \<and>
                 (length full \<le> 4000 \<longrightarrow> text = full))) \<and>
         send_telegram_message str_of cfg send_message content None =
           send_telegram_message str_of cfg send_message content
             (Some [0x4EA4, 0x6613, 0x901A, 0x77E5])"
proof (rule conjI)
  let ?full = "ascii ''*'' @ title @ ascii ''*'' @ [10, 10] @ content"
  obtain r evs w' where run:
    "send_telegram_message str_of cfg send_message content (Some title) w = (r, evs, w')"
    by (cases "send_telegram_message str_of cfg send_message content (Some title) w")
  have full: "rendered (title_or_default (Some title)) content = ?full"
    by (simp add: rendered_def title_or_default_def)
  from telegram_sent_texts [OF assms, of str_of send_message content "Some title" w] run
  have texts: "sent_texts evs \<noteq> []" "set (sent_texts evs) = {size_policy ?full}"
    by (simp_all add: full)
  have "take 4000 (size_policy ?full) = take 4000 ?full"
    "length ?full \<le> 4000 \<longrightarrow> size_policy ?full = ?full"
    using size_policy_take [of ?full] size_policy_cases [of ?full] by blast+
  with texts show "let full = ?full in
          case send_telegram_message str_of cfg send_message content (Some title) w of
            (r, evs, w') \<Rightarrow>
              sent_texts evs \<noteq> [] \<and>
              (\<forall>text \<in> set (sent_texts evs).
                 take 4000 text = take 4000 full \<and>
                 (length full \<le> 4000 \<longrightarrow> text = full))"
    by (simp add: run Let_def)
next
  have "send_telegram_message_attempt str_of cfg send_message content None =
        send_telegram_message_attempt str_of cfg send_message content
          (Some [0x4EA4, 0x6613, 0x901A, 0x77E5])"
    by (rule ext) (simp add: send_telegram_message_attempt_def default_title_def)
  then show "send_telegram_message str_of cfg send_message content None =
           send_telegram_message str_of cfg send_message content
             (Some [0x4EA4, 0x6613, 0x901A, 0x77E5])"
    by (simp add: send_telegram_message_def)
qed

theorem message_rendering_witness:
  "is_configured configured \<and>
   length (ascii ''*'' @ ascii ''Fill'' @ ascii ''*'' @ [10, 10] @ ascii ''hello'') \<le> 4000 \<and>
   hd (sent_texts (fst (snd (send_telegram_message message_of configured
         (flaky_transport 0 boom) (ascii ''hello'') (Some (ascii ''Fill'')) 0)))) =
     ascii ''*'' @ ascii ''Fill'' @ ascii ''*'' @ [10, 10] @ ascii ''hello''"
proof -
  obtain r evs w' where run:
    "send_telegram_message message_of configured (flaky_transport 0 boom) (ascii ''hello'')
       (Some (ascii ''Fill'')) 0 = (r, evs, w')"
    by (cases "send_telegram_message message_of configured (flaky_transport 0 boom)
          (ascii ''hello'') (Some (ascii ''Fill'')) 0")
  have short:
    "length (ascii ''*'' @ ascii ''Fill'' @ ascii ''*'' @ [10, 10] @ ascii ''hello'') \<le> 4000"
    by (simp add: ascii_def)
  note inst = message_rendering [OF configured_ok, where title = "ascii ''Fill''"
      and content = "ascii ''hello''" and str_of = message_of
      and send_message = "flaky_transport 0 boom" and w = 0, THEN conjunct1]
  from inst short have a: "sent_texts evs \<noteq> []"
    and b: "\<forall>text \<in> set (sent_texts evs).
      text = ascii ''*'' @ ascii ''Fill'' @ ascii ''*'' @ [10, 10] @ ascii ''hello''"
    by (simp_all add: Let_def run)
  from a have "hd (sent_texts evs) \<in> set (sent_texts evs)"
    by simp
  with b have "hd (sent_texts evs) =
      ascii ''*'' @ ascii ''Fill'' @ ascii ''*'' @ [10, 10] @ ascii ''hello''"
    by blast
  with short show ?thesis
    by (simp add: run configured_ok)
qed

lemma working_run:
  "send_telegram_message message_of configured (flaky_transport 0 timed_out) (ascii ''hello'')
     (Some (ascii ''Fill'')) 0 =
     (Inr PyNone,
      attempt_events configured (ascii ''hello'') (Some (ascii ''Fill'')) @ [sent_ok], 1)"
  by (rule telegram_first [OF configured_ok]) (simp add: working_transport_delivery)

text \<open>
  C9, as amended. When \<open>send_telegram_message\<close> returns with the configuration present,
  the only event after the last call of the transport is an info-level log call with
  the fixed message \<open>Telegram\<close> followed by six characters, which holds no title; the
  title is named by the info-level log call made before the transport is called.
\<close>

theorem success_is_confirmed_by_a_fixed_message:
  assumes "is_configured cfg"
    and "\<not> isl (fst (send_telegram_message str_of cfg send_message content title_arg w))"
  shows "(case send_telegram_message str_of cfg send_message content title_arg w of
            (r, evs, w') \<Rightarrow>
              after_send evs =
                [Logged INFO
                   (ascii ''Telegram'' @ [0x6D88, 0x606F, 0x53D1, 0x9001, 0x6210, 0x529F])
                   False] \<and>
              Logged INFO
                ([0x6B63, 0x5728, 0x53D1, 0x9001] @ ascii ''Telegram'' @ [0x901A, 0x77E5] @
                 ascii '': '' @ title_or_default title_arg) False \<in> set evs)"
  using assms(1)
proof (cases rule: telegram_runs [of cfg send_message content title_arg w str_of])
  case (first w1)
  then show ?thesis
    using sending_in_attempt [of title_arg cfg content]
    by (simp add: sent_ok_def [symmetric] sending_def)
next
  case (second e1 w2)
  then show ?thesis
    using sending_in_attempt [of title_arg cfg content]
      after_send_attempt [of sent_ok "attempt_events cfg content title_arg @
          [send_failed str_of e1, Slept 2]" cfg content title_arg]
    by (simp add: sent_ok_def [symmetric] sending_def)
next
  case (third e1 e2 w3)
  then show ?thesis
    using sending_in_attempt [of title_arg cfg content]
      after_send_attempt [of sent_ok "attempt_events cfg content title_arg @
          send_failed str_of e1 # Slept 2 # attempt_events cfg content title_arg @
          [send_failed str_of e2, Slept 2]" cfg content title_arg]
    by (simp add: sent_ok_def [symmetric] sending_def)
next
  case (none e1 e2 e3 w3)
  with assms(2) show ?thesis
    by simp
qed

theorem success_is_confirmed_witness:
  "is_configured configured \<and>
   \<not> isl (fst (send_telegram_message message_of configured (flaky_transport 0 timed_out)
               (ascii ''hello'') (Some (ascii ''Fill'')) 0)) \<and>
   (case send_telegram_message message_of configured (flaky_transport 0 timed_out)
           (ascii ''hello'') (Some (ascii ''Fill'')) 0 of
      (r, evs, w') \<Rightarrow>
        after_send evs =
          [Logged INFO
             (ascii ''Telegram'' @ [0x6D88, 0x606F, 0x53D1, 0x9001, 0x6210, 0x529F])
             False] \<and>
        Logged INFO
          ([0x6B63, 0x5728, 0x53D1, 0x9001] @ ascii ''Telegram'' @ [0x901A, 0x77E5] @
           ascii '': '' @ title_or_default (Some (ascii ''Fill''))) False \<in> set evs)"
proof -
  have ok: "\<not> isl (fst (send_telegram_message message_of configured
               (flaky_transport 0 timed_out) (ascii ''hello'') (Some (ascii ''Fill'')) 0))"
    by (simp add: working_run)
  from configured_ok ok success_is_confirmed_by_a_fixed_message [OF configured_ok ok]
  show ?thesis
    by (intro conjI)
qed

text \<open>
  C9 as it is written fails: the delivery below succeeds with the title
  \<open>Fill\<close>, and no info-level log call after the call of the transport has a message
  that contains \<open>Fill\<close>.
\<close>

theorem confirmation_does_not_name_the_title:
  "is_configured configured \<and>
   \<not> isl (fst (send_telegram_message message_of configured (flaky_transport 0 timed_out)
               (ascii ''hello'') (Some (ascii ''Fill'')) 0)) \<and>
   \<not> list_ex (info_naming (ascii ''Fill''))
       (after_send (fst (snd (send_telegram_message message_of configured
          (flaky_transport 0 timed_out) (ascii ''hello'') (Some (ascii ''Fill'')) 0))))"
proof -
  have "\<not> sublist (ascii ''Fill'')
           (ascii ''Telegram'' @ [0x6D88, 0x606F, 0x53D1, 0x9001, 0x6210, 0x529F])"
    by (simp add: ascii_def sublist_code)
  then show ?thesis
    by (simp add: working_run configured_ok sent_ok_def [symmetric])
      (simp add: sent_ok_def)
qed

text \<open>
  C10. Whenever \<open>send_telegram_message\<close> returns, it returns \<open>None\<close>: with the
  configuration missing and after a delivery that succeeded alike.
\<close>

theorem returns_None:
  assumes "\<not> isl (fst (send_telegram_message str_of cfg send_message content title_arg w))"
  shows "fst (send_telegram_message str_of cfg send_message content title_arg w) = Inr PyNone"
proof (cases "is_configured cfg")
  case True
  then show ?thesis
  proof (cases rule: telegram_runs [of cfg send_message content title_arg w str_of])
    case (none e1 e2 e3 w3)
    with assms show ?thesis
      by simp
  qed simp_all
next
  case False
  then show ?thesis
    by (simp add: telegram_unconfigured)
qed

theorem returns_None_witness:
  "\<not> isl (fst (send_telegram_message message_of unconfigured (dead_transport timed_out)
               (ascii ''hello'') None (0::nat))) \<and>
   fst (send_telegram_message message_of unconfigured (dead_transport timed_out)
          (ascii ''hello'') None (0::nat)) = Inr PyNone \<and>
   \<not> isl (fst (send_telegram_message message_of configured (flaky_transport 0 timed_out)
               (ascii ''hello'') (Some (ascii ''Fill'')) 0)) \<and>
   fst (send_telegram_message message_of configured (flaky_transport 0 timed_out)
          (ascii ''hello'') (Some (ascii ''Fill'')) 0) = Inr PyNone"
proof -
  have a: "\<not> isl (fst (send_telegram_message message_of unconfigured
               (dead_transport timed_out) (ascii ''hello'') None (0::nat)))"
    by (simp add: telegram_unconfigured [OF unconfigured_not_ok])
  have b: "\<not> isl (fst (send_telegram_message message_of configured
               (flaky_transport 0 timed_out) (ascii ''hello'') (Some (ascii ''Fill'')) 0))"
    by (simp add: working_run)
  from a returns_None [OF a] b returns_None [OF b] show ?thesis
    by (intro conjI)
qed


end
